theory Spec2Isabelle
  imports Main "HOL-Library.Word" "HOL-Library.Multiset"
begin

section \<open>Data model (types.ts)\<close>

text \<open>
  A JavaScript string is a sequence of UTF-16 code units. Identifiers, names, invite
  codes and ciphertexts are all values of this type.
\<close>

type_synonym jsstring = "16 word list"

definition js :: "string \<Rightarrow> jsstring" where
  "js s = map (\<lambda>c. of_nat (of_char c)) s"

text \<open>\<^verbatim>\<open>s.startsWith(p)\<close>\<close>

definition startsWith :: "jsstring \<Rightarrow> jsstring \<Rightarrow> bool" where
  "startsWith s p = (take (length p) s = p)"

text \<open>
  JSON values as they occur in the payloads of this program (a \<^verbatim>\<open>JsonWebKey\<close> holds
  strings, booleans and arrays of strings; a session description holds strings). An
  object is the list of its properties in enumeration order.
\<close>

datatype json =
    JNull
  | JBool bool
  | JString jsstring
  | JArray "json list"
  | JObject "(jsstring \<times> json) list"

type_synonym JsonWebKey = json

text \<open>\<^verbatim>\<open>interface TextMessage\<close>; the \<^verbatim>\<open>type\<close> field is the constructor \<open>TEXT\<close> below.\<close>

record TextMessage =
  id_msg :: jsstring
  senderId :: jsstring
  recipientId :: jsstring
  encryptedContent :: jsstring
  iv :: jsstring
  timestamp :: int

record UserInfoPayload =
  id_info :: jsstring
  name_info :: jsstring
  isServerMode_info :: bool
  publicKey_info :: JsonWebKey

record GroupKeyMessage =
  groupId_gk :: jsstring
  encryptedKey_gk :: jsstring
  iv_gk :: jsstring
  timestamp_gk :: int

record MicroWorldUpdateMessage =
  groupId_mw :: jsstring
  encryptedState_mw :: jsstring
  iv_mw :: jsstring
  timestamp_mw :: int

text \<open>\<^verbatim>\<open>type AppMessage\<close>, a union discriminated by \<^verbatim>\<open>type: MessageType\<close>.\<close>

datatype AppMessage =
    TEXT TextMessage
  | USER_INFO UserInfoPayload int
  | GROUP_KEY GroupKeyMessage
  | MICRO_WORLD_UPDATE MicroWorldUpdateMessage

record ChatMember =
  id_member :: jsstring
  name_member :: jsstring

datatype ChatType = Dm | Group

text \<open>
  \<^verbatim>\<open>interface Chat\<close>. The type \<open>'key\<close> stands for the opaque \<^verbatim>\<open>CryptoKey\<close> handle of the
  Web Crypto API; \<open>groupKeyJwk\<close> is its exported form.
\<close>

record 'key Chat =
  id_chat :: jsstring
  name_chat :: jsstring
  type_chat :: ChatType
  messages :: "TextMessage list"
  unreadCount :: nat
  members :: "ChatMember list"
  groupKey :: "'key option"
  groupKeyJwk :: "JsonWebKey option"

section \<open>Persistence (dbService.ts)\<close>

text \<open>
  The object that \<^verbatim>\<open>saveChat\<close> hands to the object store:
  \<^verbatim>\<open>{ ...chat, messages: undefined, groupKey: undefined }\<close>. It has every property of the
  chat, so both overwritten properties are optional here.
\<close>

record 'key StoredChat =
  id_stored :: jsstring
  name_stored :: jsstring
  type_stored :: ChatType
  messages_stored :: "TextMessage list option"
  unreadCount_stored :: nat
  members_stored :: "ChatMember list"
  groupKey_stored :: "'key option"
  groupKeyJwk_stored :: "JsonWebKey option"

definition storableChat :: "'key Chat \<Rightarrow> 'key StoredChat" where
  "storableChat chat =
     \<lparr> id_stored = id_chat chat,
       name_stored = name_chat chat,
       type_stored = type_chat chat,
       messages_stored = None,
       unreadCount_stored = unreadCount chat,
       members_stored = members chat,
       groupKey_stored = None,
       groupKeyJwk_stored = groupKeyJwk chat \<rparr>"

text \<open>
  The calls made on the database service, in the order they are made:
  \<^verbatim>\<open>store.put(storableChat)\<close> of \<^verbatim>\<open>saveChat\<close> and \<^verbatim>\<open>store.put({ ...message, chatId })\<close> of
  \<^verbatim>\<open>saveMessage\<close>.
\<close>

datatype 'key db_call =
    PutChat "'key StoredChat"
  | PutMessage TextMessage jsstring

definition saveChat :: "'key Chat \<Rightarrow> 'key db_call list \<Rightarrow> 'key db_call list" where
  "saveChat chat calls = calls @ [PutChat (storableChat chat)]"

definition saveMessage :: "TextMessage \<Rightarrow> jsstring \<Rightarrow> 'key db_call list \<Rightarrow> 'key db_call list" where
  "saveMessage message chatId calls = calls @ [PutMessage message chatId]"

section \<open>The chat reconciler (ChatView.tsx)\<close>

text \<open>
  The component state: the \<^verbatim>\<open>chats\<close> map, \<^verbatim>\<open>activeChatId\<close> (\<open>None\<close> is \<^verbatim>\<open>null\<close>), and the
  calls made so far on the database service.
\<close>

record 'key ChatViewState =
  chats :: "jsstring \<rightharpoonup> 'key Chat"
  activeChatId :: "jsstring option"
  db :: "'key db_call list"

text \<open>
  \<^verbatim>\<open>textMessage.recipientId.startsWith('group-') ? textMessage.recipientId : senderId\<close>
\<close>

definition targetChatId :: "jsstring \<Rightarrow> TextMessage \<Rightarrow> jsstring" where
  "targetChatId sender textMessage =
     (if startsWith (recipientId textMessage) (js ''group-'')
      then recipientId textMessage else sender)"

text \<open>
  \<^verbatim>\<open>handleNewMessage\<close>, made with \<^verbatim>\<open>useCallback(..., [user.id, activeChatId])\<close>. The callback
  reads the \<^verbatim>\<open>activeChatId\<close> of the render that made it (the first argument here), while
  the updater it passes to \<^verbatim>\<open>setChats\<close> is applied to the current map.
  \<^verbatim>\<open>chat.messages.sort((a, b) => a.timestamp - b.timestamp)\<close> is a stable sort on the
  timestamp, which is what \<^const>\<open>sort_key\<close> computes. Timestamps are the millisecond
  counts of \<^verbatim>\<open>Date.now()\<close>.
\<close>

definition handleNewMessage ::
  "jsstring option \<Rightarrow> 'key ChatViewState \<Rightarrow> jsstring \<Rightarrow> AppMessage \<Rightarrow> 'key ChatViewState" where
  "handleNewMessage activeChatId' st sender message =
     (case message of
        TEXT textMessage \<Rightarrow>
          (let chatId = targetChatId sender textMessage in
           case chats st chatId of
             None \<Rightarrow> st
           | Some chat \<Rightarrow>
               if \<not> list_ex (\<lambda>m. id_msg m = id_msg textMessage) (messages chat) then
                 (let pushed = chat\<lparr>messages := sort_key timestamp (messages chat @ [textMessage])\<rparr>;
                      counted = (if Some chatId \<noteq> activeChatId'
                                 then pushed\<lparr>unreadCount := unreadCount pushed + 1\<rparr>
                                 else pushed)
                  in st\<lparr>chats := (chats st)(chatId \<mapsto> counted),
                        db := saveMessage textMessage chatId (db st)\<rparr>)
               else st)
      | _ \<Rightarrow> st)"

text \<open>\<^verbatim>\<open>interface CryptoKeys\<close>, \<^verbatim>\<open>interface User\<close>, \<^verbatim>\<open>interface Peer extends User\<close>.\<close>

record CryptoKeys =
  publicKey :: JsonWebKey
  privateKey :: JsonWebKey

record User =
  id_user :: jsstring
  name_user :: jsstring
  keys :: CryptoKeys
  isServerMode :: bool

datatype PeerStatus = Connecting | Connected | Disconnected

record ('conn, 'chan, 'key) Peer = User +
  connection :: 'conn
  dataChannel :: 'chan
  status :: PeerStatus
  sharedSecret :: "'key option"

text \<open>
  The effect that clears the unread count:
  \<^verbatim>\<open>useEffect(() => { if (activeChatId) setChats(prev => ...) }, [activeChatId])\<close>.
  The test \<^verbatim>\<open>if (activeChatId)\<close> fails for \<^verbatim>\<open>null\<close> and for the empty string.
\<close>

definition clearUnreadEffect :: "'key ChatViewState \<Rightarrow> 'key ChatViewState" where
  "clearUnreadEffect st =
     (case activeChatId st of
        None \<Rightarrow> st
      | Some a \<Rightarrow>
          if a = [] then st else
          (case chats st a of
             None \<Rightarrow> st
           | Some chat \<Rightarrow>
               if unreadCount chat > 0 then
                 (let cleared = chat\<lparr>unreadCount := 0\<rparr>
                  in st\<lparr>chats := (chats st)(a \<mapsto> cleared), db := saveChat cleared (db st)\<rparr>)
               else st))"

text \<open>
  \<^verbatim>\<open>setActiveChatId(chatId)\<close>: the effect above has \<^verbatim>\<open>activeChatId\<close> as its only dependency,
  so it runs after the render in which the value has changed, and not otherwise.
\<close>

definition setActiveChatId :: "'key ChatViewState \<Rightarrow> jsstring \<Rightarrow> 'key ChatViewState" where
  "setActiveChatId st chatId =
     (if activeChatId st = Some chatId then st
      else clearUnreadEffect (st\<lparr>activeChatId := Some chatId\<rparr>))"

text \<open>\<^verbatim>\<open>selectChat\<close>\<close>

definition selectChat ::
  "'key ChatViewState \<Rightarrow> ('conn, 'chan, 'key) Peer list \<Rightarrow> User \<Rightarrow> jsstring \<Rightarrow> jsstring
     \<Rightarrow> 'key ChatViewState" where
  "selectChat st peers user peerOrChatId name =
     (let chatId = peerOrChatId;
          st1 = (case (chats st chatId, find (\<lambda>p. id_user p = peerOrChatId) peers) of
                   (None, Some peer) \<Rightarrow>
                     (let newChat = \<lparr> id_chat = id_user peer, name_chat = name_user peer,
                             type_chat = Dm, messages = [], unreadCount = 0,
                             members = [\<lparr>id_member = id_user user, name_member = name_user user\<rparr>,
                                        \<lparr>id_member = id_user peer, name_member = name_user peer\<rparr>],
                             groupKey = None, groupKeyJwk = None \<rparr>
                      in st\<lparr>chats := (chats st)(chatId \<mapsto> newChat), db := saveChat newChat (db st)\<rparr>)
                 | _ \<Rightarrow> st)
      in setActiveChatId st1 chatId)"

text \<open>
  \<^verbatim>\<open>sendMessage\<close>. The arguments \<open>encrypt\<close>, \<open>uuid\<close> and \<open>now\<close> are the results of
  \<^verbatim>\<open>await encryptTextMessage(content, key)\<close> (as the pair \<^verbatim>\<open>{ encryptedContent, iv }\<close>),
  \<^verbatim>\<open>crypto.randomUUID()\<close> and \<^verbatim>\<open>Date.now()\<close>. The second component of the result is the call
  \<^verbatim>\<open>broadcastMessage(message, connectedRecipients)\<close>, if it is reached.
\<close>

definition sendMessage ::
  "'key ChatViewState \<Rightarrow> ('conn, 'chan, 'key) Peer list \<Rightarrow> User
     \<Rightarrow> (jsstring \<Rightarrow> 'key \<Rightarrow> jsstring \<times> jsstring) \<Rightarrow> jsstring \<Rightarrow> int \<Rightarrow> jsstring
     \<Rightarrow> 'key ChatViewState \<times> (TextMessage \<times> jsstring list) option" where
  "sendMessage st peers user encrypt uuid now content =
     (case activeChatId st of
        None \<Rightarrow> (st, None)
      | Some active \<Rightarrow>
          if active = [] then (st, None) else
          (case chats st active of
             None \<Rightarrow> (st, None)
           | Some chat \<Rightarrow>
               (let prepared =
                      (if type_chat chat = Dm then
                         (case find (\<lambda>p. id_user p = id_chat chat) peers of
                            None \<Rightarrow> None
                          | Some peer \<Rightarrow>
                              (case sharedSecret peer of
                                 None \<Rightarrow> None
                               | Some secret \<Rightarrow> Some (encrypt content secret, [id_user peer])))
                       else
                         (case groupKey chat of
                            None \<Rightarrow> None
                          | Some k \<Rightarrow>
                              Some (encrypt content k,
                                    filter (\<lambda>i. i \<noteq> id_user user) (map id_member (members chat)))))
                in case prepared of
                     None \<Rightarrow> (st, None)
                   | Some ((encryptedContent', iv'), recipientIds) \<Rightarrow>
                       (let message = \<lparr> id_msg = uuid, senderId = id_user user,
                                         recipientId = id_chat chat,
                                         encryptedContent = encryptedContent', iv = iv',
                                         timestamp = now \<rparr>;
                            st' = (case chats st active of
                                     None \<Rightarrow> st
                                   | Some currentChat \<Rightarrow>
                                       st\<lparr>chats := (chats st)(active \<mapsto>
                                               currentChat\<lparr>messages := messages currentChat @ [message]\<rparr>),
                                          db := saveMessage message active (db st)\<rparr>);
                            connectedRecipients =
                              filter (\<lambda>i. list_ex (\<lambda>p. id_user p = i \<and> status p = Connected) peers)
                                recipientIds
                        in (st', Some (message, connectedRecipients))))))"

text \<open>
  \<^verbatim>\<open>createGroup\<close>. The arguments \<open>uuid\<close>, \<open>key\<close> and \<open>jwk\<close> are the results of
  \<^verbatim>\<open>crypto.randomUUID()\<close>, \<^verbatim>\<open>await generateSymmetricKey()\<close> and
  \<^verbatim>\<open>await exportSymmetricKey(groupKey)\<close>.
\<close>

definition createGroup ::
  "'key ChatViewState \<Rightarrow> User \<Rightarrow> jsstring \<Rightarrow> 'key \<Rightarrow> JsonWebKey \<Rightarrow> jsstring \<Rightarrow> 'key ChatViewState" where
  "createGroup st user uuid key jwk name =
     (let groupId = js ''group-'' @ uuid;
          newGroup = \<lparr> id_chat = groupId, name_chat = name, type_chat = Group, messages = [],
                        unreadCount = 0,
                        members = [\<lparr>id_member = id_user user, name_member = name_user user\<rparr>],
                        groupKey = Some key, groupKeyJwk = Some jwk \<rparr>
      in setActiveChatId
           (st\<lparr>chats := (chats st)(groupId \<mapsto> newGroup), db := saveChat newGroup (db st)\<rparr>)
           groupId)"

text \<open>
  \<^verbatim>\<open>joinGroup\<close>. The argument \<open>decoded\<close> is the outcome of
  \<^verbatim>\<open>const { groupId, groupName, key } = JSON.parse(atob(inviteCode))\<close>, with \<open>None\<close> when
  that statement throws, and \<open>importKey\<close> is \<^verbatim>\<open>importSymmetricKey\<close>, with \<open>None\<close> when its
  promise rejects. The second component of the result tells whether the \<^verbatim>\<open>catch\<close>
  block ran (\<^verbatim>\<open>alert("Invalid invite code.")\<close>).
\<close>

definition joinGroup ::
  "'key ChatViewState \<Rightarrow> User \<Rightarrow> (JsonWebKey \<Rightarrow> 'key option)
     \<Rightarrow> (jsstring \<times> jsstring \<times> JsonWebKey) option \<Rightarrow> 'key ChatViewState \<times> bool" where
  "joinGroup st user importKey decoded =
     (case decoded of
        None \<Rightarrow> (st, True)
      | Some (groupId, groupName, groupKeyJwk') \<Rightarrow>
          if chats st groupId \<noteq> None then (setActiveChatId st groupId, False)
          else
            (case importKey groupKeyJwk' of
               None \<Rightarrow> (st, True)
             | Some key \<Rightarrow>
                 (let newGroup = \<lparr> id_chat = groupId, name_chat = groupName, type_chat = Group,
                         messages = [], unreadCount = 0,
                         members = [\<lparr>id_member = id_user user, name_member = name_user user\<rparr>],
                         groupKey = Some key, groupKeyJwk = Some groupKeyJwk' \<rparr>
                  in (setActiveChatId
                        (st\<lparr>chats := (chats st)(groupId \<mapsto> newGroup),
                            db := saveChat newGroup (db st)\<rparr>)
                        groupId, False))))"





text \<open>
  The states of the component: it starts with the map that \<^verbatim>\<open>loadChats\<close> has built and no
  conversation in focus; each user action and each delivery is a step. In this relation
  a delivery runs the callback of the current render, the one that holds the current
  \<^verbatim>\<open>activeChatId\<close>. The peers are those of \<^verbatim>\<open>useWebRTC\<close> at the time of the step, whatever
  they are; their connections and data channels are not read here.
\<close>

inductive reachable :: "'key ChatViewState \<Rightarrow> bool" where
  loaded: "reachable \<lparr>chats = chatMap, activeChatId = None, db = []\<rparr>"
| receive: "reachable st \<Longrightarrow> reachable (handleNewMessage (activeChatId st) st sender message)"
| select: "reachable st \<Longrightarrow>
    reachable (selectChat st (peers :: (unit, unit, 'key) Peer list) user peerOrChatId name)"
| send: "reachable st \<Longrightarrow>
    reachable (fst (sendMessage st (peers :: (unit, unit, 'key) Peer list) user encrypt uuid now content))"
| create: "reachable st \<Longrightarrow> reachable (createGroup st user uuid key jwk name)"
| join: "reachable st \<Longrightarrow> reachable (fst (joinGroup st user importKey decoded))"


section \<open>Built-in functions of the platform\<close>

text \<open>The exceptions that the modelled calls throw.\<close>

datatype js_error =
    InvalidCharacterError
  | SyntaxError
  | TypeError
  | OperationError
  | Error jsstring

type_synonym byte = "8 word"

text \<open>\<^verbatim>\<open>n.toString(16)\<close> for a non-negative integer, and \<^verbatim>\<open>s.padStart(n, c)\<close> for a
  one-character filler.\<close>

definition hexDigit :: "nat \<Rightarrow> 16 word" where
  "hexDigit d = (if d < 10 then of_nat (48 + d) else of_nat (87 + d))"

fun toString16 :: "nat \<Rightarrow> jsstring" where
  "toString16 n = (if n < 16 then [hexDigit n] else toString16 (n div 16) @ [hexDigit (n mod 16)])"

definition padStart :: "nat \<Rightarrow> 16 word \<Rightarrow> jsstring \<Rightarrow> jsstring" where
  "padStart n c s = replicate (n - length s) c @ s"

text \<open>\<^verbatim>\<open>parts.join(sep)\<close>\<close>

fun join :: "jsstring \<Rightarrow> jsstring list \<Rightarrow> jsstring" where
  "join sep [] = []"
| "join sep [x] = x"
| "join sep (x # y # ys) = x @ sep @ join sep (y # ys)"

definition isLeadSurrogate :: "16 word \<Rightarrow> bool" where
  "isLeadSurrogate c \<longleftrightarrow> 0xD800 \<le> c \<and> c \<le> 0xDBFF"

definition isTrailSurrogate :: "16 word \<Rightarrow> bool" where
  "isTrailSurrogate c \<longleftrightarrow> 0xDC00 \<le> c \<and> c \<le> 0xDFFF"

text \<open>
  \<^verbatim>\<open>JSON.stringify(value)\<close> without indentation (ECMA-262, SerializeJSONProperty and
  QuoteJSONString): the two-character escapes, \<^verbatim>\<open>\uXXXX\<close> for the other control
  characters and for a surrogate that has no partner, every other character as it is.
\<close>

definition unicodeEscape :: "16 word \<Rightarrow> jsstring" where
  "unicodeEscape c = [0x5C, 0x75] @ padStart 4 0x30 (toString16 (unat c))"

fun quoteChars :: "jsstring \<Rightarrow> jsstring" where
  "quoteChars [] = []"
| "quoteChars (c # cs) =
     (if c = 0x08 then [0x5C, 0x62] @ quoteChars cs
      else if c = 0x09 then [0x5C, 0x74] @ quoteChars cs
      else if c = 0x0A then [0x5C, 0x6E] @ quoteChars cs
      else if c = 0x0C then [0x5C, 0x66] @ quoteChars cs
      else if c = 0x0D then [0x5C, 0x72] @ quoteChars cs
      else if c = 0x22 then [0x5C, 0x22] @ quoteChars cs
      else if c = 0x5C then [0x5C, 0x5C] @ quoteChars cs
      else if c < 0x20 then unicodeEscape c @ quoteChars cs
      else if isLeadSurrogate c then
        (case cs of
           [] \<Rightarrow> unicodeEscape c
         | d # ds \<Rightarrow>
             if isTrailSurrogate d then c # d # quoteChars ds
             else unicodeEscape c @ quoteChars cs)
      else if isTrailSurrogate c then unicodeEscape c @ quoteChars cs
      else c # quoteChars cs)"

definition QuoteJSONString :: "jsstring \<Rightarrow> jsstring" where
  "QuoteJSONString s = [0x22] @ quoteChars s @ [0x22]"

fun JSON_stringify :: "json \<Rightarrow> jsstring" where
  "JSON_stringify JNull = js ''null''"
| "JSON_stringify (JBool b) = (if b then js ''true'' else js ''false'')"
| "JSON_stringify (JString s) = QuoteJSONString s"
| "JSON_stringify (JArray xs) = [0x5B] @ join [0x2C] (map JSON_stringify xs) @ [0x5D]"
| "JSON_stringify (JObject ps) =
     [0x7B] @ join [0x2C] (map (\<lambda>p. QuoteJSONString (fst p) @ [0x3A] @ JSON_stringify (snd p)) ps)
       @ [0x7D]"

text \<open>
  \<^verbatim>\<open>btoa(s)\<close> (HTML, forgiving-base64 encode): it throws \<^verbatim>\<open>InvalidCharacterError\<close> when a
  code unit of \<open>s\<close> is above 0xFF, and otherwise gives the base64 text of the bytes.
\<close>

definition base64Alphabet :: string where
  "base64Alphabet = ''ABCDEFGHIJKLMNOPQRSTUVWXYZabcdefghijklmnopqrstuvwxyz0123456789+/''"

definition base64Char :: "nat \<Rightarrow> 16 word" where
  "base64Char i = of_nat (of_char (base64Alphabet ! i))"

fun base64Encode :: "nat list \<Rightarrow> jsstring" where
  "base64Encode [] = []"
| "base64Encode [a] = [base64Char (a div 4), base64Char ((a mod 4) * 16), 0x3D, 0x3D]"
| "base64Encode [a, b] =
     [base64Char (a div 4), base64Char ((a mod 4) * 16 + b div 16),
      base64Char ((b mod 16) * 4), 0x3D]"
| "base64Encode (a # b # c # rest) =
     [base64Char (a div 4), base64Char ((a mod 4) * 16 + b div 16),
      base64Char ((b mod 16) * 4 + c div 64), base64Char (c mod 64)] @ base64Encode rest"

definition btoa :: "jsstring \<Rightarrow> js_error + jsstring" where
  "btoa s = (if list_ex (\<lambda>c. c > 0xFF) s then Inl InvalidCharacterError
             else Inr (base64Encode (map unat s)))"




section \<open>Identity (cryptoService.ts)\<close>




text \<open>
  A public key as \<^verbatim>\<open>exportKey('jwk', keyPair.publicKey)\<close> gives it for \<^verbatim>\<open>KEY_ALG\<close> (ECDH on
  P-384): \<^verbatim>\<open>x\<close> and \<^verbatim>\<open>y\<close> are the base64url texts of the coordinates, 64 characters each.
\<close>

definition base64urlAlphabet :: string where
  "base64urlAlphabet = ''ABCDEFGHIJKLMNOPQRSTUVWXYZabcdefghijklmnopqrstuvwxyz0123456789-_''"


definition coordinateTexts :: "jsstring set" where
  "coordinateTexts = {x. set x \<subseteq> set (js base64urlAlphabet) \<and> length x = 64}"

section \<open>Group invitations (ChatView.tsx)\<close>

text \<open>The test \<^verbatim>\<open>!value\<close> on a JSON value: \<^verbatim>\<open>null\<close>, \<^verbatim>\<open>false\<close> and the empty string are
  falsy.\<close>

fun truthy :: "json \<Rightarrow> bool" where
  "truthy JNull = False"
| "truthy (JBool b) = b"
| "truthy (JString s) = (s \<noteq> [])"
| "truthy (JArray xs) = True"
| "truthy (JObject ps) = True"

text \<open>\<^verbatim>\<open>generateGroupInviteCode\<close>, on the \<^verbatim>\<open>chats\<close> map of the render. The guard
  \<^verbatim>\<open>!chat || chat.type !== 'group' || !chat.groupKeyJwk\<close> throws; the payload is made when
  no part of it holds.\<close>

definition generateGroupInviteCode :: "(jsstring \<rightharpoonup> 'key Chat) \<Rightarrow> jsstring \<Rightarrow> js_error + jsstring" where
  "generateGroupInviteCode chatMap groupId =
     (case chatMap groupId of
        None \<Rightarrow> Inl (Error (js ''Invalid group or missing key''))
      | Some chat \<Rightarrow>
          (case groupKeyJwk chat of
             None \<Rightarrow> Inl (Error (js ''Invalid group or missing key''))
           | Some jwk \<Rightarrow>
               if type_chat chat = Group \<and> truthy jwk then
                 (let payload = JObject [(js ''groupId'', JString (id_chat chat)),
                                         (js ''groupName'', JString (name_chat chat)),
                                         (js ''key'', jwk)]
                  in btoa (JSON_stringify payload))
               else Inl (Error (js ''Invalid group or missing key''))))"

section \<open>Connection establishment (useWebRTC.ts)\<close>

text \<open>
  What the hook reads of an \<^verbatim>\<open>RTCPeerConnection\<close>: its signaling state and its local
  description.
\<close>

datatype RTCSignalingState =
    Stable | HaveLocalOffer | HaveRemoteOffer | HaveLocalPranswer | HaveRemotePranswer | Closed

record RTCPeerConnection =
  signalingState :: RTCSignalingState
  localDescription :: "json option"

text \<open>The \<^verbatim>\<open>sender\<close> member of an invite or answer payload.\<close>

record SenderInfo =
  id_sender :: jsstring
  name_sender :: jsstring
  publicKey_sender :: JsonWebKey

datatype KeyUsage = DeriveKeyUsage | EncryptUsage | DecryptUsage

text \<open>
  The browser, as far as the hook calls it. Each function gives the outcome of the
  awaited call, \<open>Inl\<close> when it throws or its promise rejects:
  \<^item> \<open>parseCode\<close> is \<^verbatim>\<open>const { sdp, sender } = JSON.parse(atob(code))\<close> for a payload that has
    both members, and throws for any other text;
  \<^item> \<open>setRemoteDescription\<close> is \<^verbatim>\<open>connection.setRemoteDescription(new RTCSessionDescription(sdp))\<close>
    and gives the connection after the call;
  \<^item> \<open>answerLocally\<close> is \<^verbatim>\<open>createAnswer()\<close> followed by \<^verbatim>\<open>setLocalDescription(answer)\<close> and
    gives the connection as it is when ICE gathering is complete;
  \<^item> \<open>importKey\<close> and \<open>deriveKey\<close> are those of \<^verbatim>\<open>window.crypto.subtle\<close>, for the algorithms
    \<^verbatim>\<open>KEY_ALG\<close> and \<^verbatim>\<open>ENCRYPT_ALG\<close>.
\<close>

record ('ec, 'key) Browser =
  parseCode :: "jsstring \<Rightarrow> js_error + (json \<times> SenderInfo)"
  setRemoteDescription :: "RTCPeerConnection \<Rightarrow> json \<Rightarrow> js_error + RTCPeerConnection"
  answerLocally :: "RTCPeerConnection \<Rightarrow> js_error + RTCPeerConnection"
  importKey :: "JsonWebKey \<Rightarrow> KeyUsage list \<Rightarrow> js_error + 'ec"
  deriveKey :: "'ec \<Rightarrow> 'ec \<Rightarrow> js_error + 'key"

text \<open>\<^verbatim>\<open>deriveSharedSecret\<close> (cryptoService.ts); \<^verbatim>\<open>deriveKey\<close> takes the public key first.\<close>

definition deriveSharedSecret ::
  "('ec, 'key) Browser \<Rightarrow> JsonWebKey \<Rightarrow> JsonWebKey \<Rightarrow> js_error + 'key" where
  "deriveSharedSecret browser myPrivateKey peerPublicKey =
     (case importKey browser myPrivateKey [DeriveKeyUsage] of
        Inl e \<Rightarrow> Inl e
      | Inr privateKey' \<Rightarrow>
          (case importKey browser peerPublicKey [] of
             Inl e \<Rightarrow> Inl e
           | Inr publicKey' \<Rightarrow> deriveKey browser publicKey' privateKey'))"

text \<open>How an asynchronous call ends: its promise resolves, rejects, or never settles.\<close>

datatype 'a settled = Resolved 'a | Rejected js_error | Pending

type_synonym 'key WebRTCPeer = "(RTCPeerConnection, unit, 'key) Peer"

text \<open>\<^verbatim>\<open>addPeer\<close>: \<^verbatim>\<open>setPeers(prev => [...prev.filter(p => p.id !== newPeer.id), newPeer])\<close>\<close>

definition addPeer :: "'key WebRTCPeer list \<Rightarrow> 'key WebRTCPeer \<Rightarrow> 'key WebRTCPeer list" where
  "addPeer prev newPeer = filter (\<lambda>p. id_user p \<noteq> id_user newPeer) prev @ [newPeer]"

text \<open>\<^verbatim>\<open>createPeerConnection\<close>: a new connection, in the state \<^verbatim>\<open>stable\<close>, and a placeholder
  peer around it.\<close>

definition createPeerConnection :: "jsstring \<Rightarrow> 'key WebRTCPeer" where
  "createPeerConnection peerId =
     \<lparr> id_user = peerId, name_user = js ''Peer-'' @ take 6 peerId,
       keys = \<lparr>publicKey = JObject [], privateKey = JObject []\<rparr>, isServerMode = False,
       connection = \<lparr>signalingState = Stable, localDescription = None\<rparr>,
       dataChannel = (), status = Connecting, sharedSecret = None \<rparr>"

text \<open>The payload of an invite or answer code:
  \<^verbatim>\<open>{ sdp: peer.connection.localDescription, sender: { id, name, publicKey } }\<close>; the local
  description is \<^verbatim>\<open>null\<close> before one is set.\<close>

definition codePayload :: "RTCPeerConnection \<Rightarrow> User \<Rightarrow> json" where
  "codePayload conn user =
     JObject [(js ''sdp'', (case localDescription conn of None \<Rightarrow> JNull | Some d \<Rightarrow> d)),
              (js ''sender'', JObject [(js ''id'', JString (id_user user)),
                                       (js ''name'', JString (name_user user)),
                                       (js ''publicKey'', publicKey (keys user))])]"

text \<open>
  \<^verbatim>\<open>handleOffer\<close>, on the \<^verbatim>\<open>peers\<close> of the render. The result is the list of peers after the
  call and how the promise ends: \<open>Resolved None\<close> is the \<^verbatim>\<open>return\<close> without a value, after
  the warning. The promise that carries the answer code is resolved in the
  \<^verbatim>\<open>onicegatheringstatechange\<close> handler by \<^verbatim>\<open>resolve(btoa(JSON.stringify(answerPayload)))\<close>;
  when \<^verbatim>\<open>btoa\<close> throws there, the promise never settles.
\<close>

definition handleOffer ::
  "('ec, 'key) Browser \<Rightarrow> User \<Rightarrow> 'key WebRTCPeer list \<Rightarrow> jsstring
     \<Rightarrow> 'key WebRTCPeer list \<times> jsstring option settled" where
  "handleOffer browser user peers offerCode =
     (case parseCode browser offerCode of
        Inl e \<Rightarrow> (peers, Rejected e)
      | Inr (sdp, sender) \<Rightarrow>
          (case find (\<lambda>p. id_user p = id_sender sender) peers of
             Some existingPeer \<Rightarrow> (peers, Resolved None)
           | None \<Rightarrow>
               (let peer = createPeerConnection (id_sender sender) in
                case setRemoteDescription browser (connection peer) sdp of
                  Inl e \<Rightarrow> (peers, Rejected e)
                | Inr offered \<Rightarrow>
                    (case answerLocally browser offered of
                       Inl e \<Rightarrow> (peers, Rejected e)
                     | Inr answered \<Rightarrow>
                         (case deriveSharedSecret browser (privateKey (keys user))
                                 (publicKey_sender sender) of
                            Inl e \<Rightarrow> (peers, Rejected e)
                          | Inr secret \<Rightarrow>
                              (let peer' = peer\<lparr> name_user := name_sender sender,
                                                 keys := (keys peer)\<lparr>publicKey := publicKey_sender sender\<rparr>,
                                                 connection := answered,
                                                 sharedSecret := Some secret \<rparr>;
                                   peers' = addPeer peers peer'
                               in case btoa (JSON_stringify (codePayload answered user)) of
                                    Inl e \<Rightarrow> (peers', Pending)
                                  | Inr code \<Rightarrow> (peers', Resolved (Some code))))))))"





section \<open>Values for the examples\<close>

definition exUser :: User where
  "exUser = \<lparr> id_user = js ''0123456789abcdef'', name_user = js ''Ann'',
               keys = \<lparr>publicKey = JObject [], privateKey = JObject []\<rparr>,
               isServerMode = False \<rparr>"

text \<open>A key as \<^verbatim>\<open>exportKey('jwk', key)\<close> gives it for AES-GCM: the member \<^verbatim>\<open>k\<close> is the
  base64url text of the octets of the key.\<close>

definition exJwk :: JsonWebKey where
  "exJwk = JObject [(js ''alg'', JString (js ''A256GCM'')), (js ''ext'', JBool True),
                    (js ''k'', JString (js ''q83vEjRWeJCrze8SNFZ4kKvN7xI0VniQq83vEjRWeJA'')),
                    (js ''key_ops'', JArray [JString (js ''encrypt''), JString (js ''decrypt'')]),
                    (js ''kty'', JString (js ''oct''))]"

definition exInit :: "nat ChatViewState" where
  "exInit = \<lparr>chats = Map.empty, activeChatId = None, db = []\<rparr>"

definition exGroupId :: jsstring where
  "exGroupId = js ''group-u1''"

definition exCreated :: "nat ChatViewState" where
  "exCreated = createGroup exInit exUser (js ''u1'') 7 exJwk (js ''Team'')"

definition exPeerMessage :: TextMessage where
  "exPeerMessage = \<lparr> id_msg = js ''m1'', senderId = js ''fedcba9876543210'',
                      recipientId = exGroupId, encryptedContent = js ''c1'', iv = js ''n1'',
                      timestamp = 100 \<rparr>"

definition exReceived :: "nat ChatViewState" where
  "exReceived = handleNewMessage (activeChatId exCreated) exCreated (js ''fedcba9876543210'')
                  (TEXT exPeerMessage)"

definition exEncrypt :: "jsstring \<Rightarrow> nat \<Rightarrow> jsstring \<times> jsstring" where
  "exEncrypt content key = (js ''c2'', js ''n2'')"

definition exSent :: "nat ChatViewState" where
  "exSent = fst (sendMessage exReceived ([] :: (unit, unit, nat) Peer list) exUser exEncrypt
                   (js ''m2'') 50 (js ''hi''))"

definition exSecond :: "nat ChatViewState" where
  "exSecond = createGroup exCreated exUser (js ''u2'') 8 exJwk (js ''Other'')"

text \<open>A group with a Japanese name of three characters, U+65E5 U+672C U+8A9E.\<close>

definition exJapanese :: "nat ChatViewState" where
  "exJapanese = createGroup exInit exUser (js ''u3'') 9 exJwk [0x65E5, 0x672C, 0x8A9E]"

text \<open>A stand-in for the hash function: 32 bytes, each the length of the input.\<close>

definition exDigest :: "byte list \<Rightarrow> byte list" where
  "exDigest data = replicate 32 (of_nat (length data))"

text \<open>A stand-in for \<^verbatim>\<open>importSymmetricKey\<close>: the key 7 for the exported key above.\<close>

definition exImport :: "JsonWebKey \<Rightarrow> nat option" where
  "exImport jwk = (if jwk = exJwk then Some 7 else None)"

definition exUnread :: "nat ChatViewState" where
  "exUnread = handleNewMessage (activeChatId exSecond) exSecond (js ''fedcba9876543210'')
                (TEXT exPeerMessage)"






lemmas ex_defs = exUser_def exJwk_def exInit_def exGroupId_def exCreated_def exPeerMessage_def
  exReceived_def exEncrypt_def exSent_def exSecond_def exUnread_def exJapanese_def exDigest_def exImport_def

section \<open>Receiving a message\<close>

lemmas op_defs = createGroup_def setActiveChatId_def clearUnreadEffect_def handleNewMessage_def
  sendMessage_def saveChat_def saveMessage_def targetChatId_def startsWith_def js_def
  storableChat_def Let_def

lemma handleNewMessage_absent:
  "chats st (targetChatId sender tm) = None \<Longrightarrow> handleNewMessage a st sender (TEXT tm) = st"
  by (simp add: handleNewMessage_def)

lemma handleNewMessage_known_id:
  "chats st (targetChatId sender tm) = Some chat \<Longrightarrow>
   list_ex (\<lambda>m. id_msg m = id_msg tm) (messages chat) \<Longrightarrow>
   handleNewMessage a st sender (TEXT tm) = st"
  by (simp add: handleNewMessage_def)

lemma handleNewMessage_fresh_id:
  assumes "chats st (targetChatId sender tm) = Some chat"
    and "\<not> list_ex (\<lambda>m. id_msg m = id_msg tm) (messages chat)"
  shows "handleNewMessage a st sender (TEXT tm) =
           st\<lparr>chats := (chats st)(targetChatId sender tm \<mapsto>
                   chat\<lparr>messages := sort_key timestamp (messages chat @ [tm]),
                        unreadCount := (if Some (targetChatId sender tm) \<noteq> a
                                        then unreadCount chat + 1 else unreadCount chat)\<rparr>),
              db := db st @ [PutMessage tm (targetChatId sender tm)]\<rparr>"
  using assms by (simp add: handleNewMessage_def Let_def saveMessage_def)

lemma handleNewMessage_idempotent:
  "handleNewMessage a (handleNewMessage a st sender message) sender message
     = handleNewMessage a st sender message"
proof (cases message)
  case (TEXT tm)
  show ?thesis
  proof (cases "chats st (targetChatId sender tm)")
    case None
    then show ?thesis using TEXT by (simp add: handleNewMessage_absent)
  next
    case (Some chat)
    show ?thesis
    proof (cases "list_ex (\<lambda>m. id_msg m = id_msg tm) (messages chat)")
      case True
      then show ?thesis using TEXT Some by (simp add: handleNewMessage_known_id)
    next
      case False
      let ?chat' = "chat\<lparr>messages := sort_key timestamp (messages chat @ [tm]),
                        unreadCount := (if Some (targetChatId sender tm) \<noteq> a
                                        then unreadCount chat + 1 else unreadCount chat)\<rparr>"
      have c: "chats (handleNewMessage a st sender (TEXT tm)) (targetChatId sender tm) = Some ?chat'"
        by (simp add: handleNewMessage_fresh_id[OF Some False])
      have "list_ex (\<lambda>m. id_msg m = id_msg tm) (messages ?chat')"
        by (simp add: list_ex_iff)
      then show ?thesis using TEXT handleNewMessage_known_id[OF c] by simp
    qed
  qed
qed (simp_all add: handleNewMessage_def)

text \<open>
  C10. A text message whose target conversation is not in the map changes nothing: the
  state after the delivery is the state before it, with the same map, the same focus
  and the same calls on the database. No conversation is created, nothing is persisted
  and no unread count moves.
\<close>

theorem receive_unknown_conversation_ignored:
  "chats st (targetChatId sender tm) = None \<Longrightarrow>
   handleNewMessage a st sender (TEXT tm) = st"
  by (rule handleNewMessage_absent)

theorem receive_unknown_conversation_ignored_witness:
  "chats exCreated (targetChatId (js ''fedcba9876543210'') (exPeerMessage\<lparr>recipientId := js ''0123456789abcdef''\<rparr>)) = None
   \<and> handleNewMessage None exCreated (js ''fedcba9876543210'')
        (TEXT (exPeerMessage\<lparr>recipientId := js ''0123456789abcdef''\<rparr>)) = exCreated"
proof -
  have h: "chats exCreated (targetChatId (js ''fedcba9876543210'')
             (exPeerMessage\<lparr>recipientId := js ''0123456789abcdef''\<rparr>)) = None"
    by (simp add: ex_defs op_defs)
  from receive_unknown_conversation_ignored[OF h] h show ?thesis by simp
qed

text \<open>
  C4. A text message whose id is already among the messages of its target conversation
  leaves the state as it is. Delivering one message twice gives the state of delivering
  it once; when the id is new, that state has one message more in the conversation
  and one more \<^verbatim>\<open>saveMessage\<close> call, not two.
\<close>

theorem receive_duplicate_id_ignored:
  assumes "chats st (targetChatId sender tm) = Some chat"
  shows "(list_ex (\<lambda>m. id_msg m = id_msg tm) (messages chat) \<longrightarrow>
            handleNewMessage a st sender (TEXT tm) = st)
       \<and> handleNewMessage a (handleNewMessage a st sender (TEXT tm)) sender (TEXT tm)
            = handleNewMessage a st sender (TEXT tm)
       \<and> (\<not> list_ex (\<lambda>m. id_msg m = id_msg tm) (messages chat) \<longrightarrow>
            (\<exists>chat'. chats (handleNewMessage a (handleNewMessage a st sender (TEXT tm)) sender (TEXT tm))
                       (targetChatId sender tm) = Some chat'
                   \<and> length (messages chat') = length (messages chat) + 1)
            \<and> db (handleNewMessage a (handleNewMessage a st sender (TEXT tm)) sender (TEXT tm))
                = db st @ [PutMessage tm (targetChatId sender tm)])"
proof (intro conjI impI)
  assume "list_ex (\<lambda>m. id_msg m = id_msg tm) (messages chat)"
  then show "handleNewMessage a st sender (TEXT tm) = st"
    using assms by (rule handleNewMessage_known_id[rotated])
next
  show "handleNewMessage a (handleNewMessage a st sender (TEXT tm)) sender (TEXT tm)
          = handleNewMessage a st sender (TEXT tm)"
    by (rule handleNewMessage_idempotent)
next
  assume fresh: "\<not> list_ex (\<lambda>m. id_msg m = id_msg tm) (messages chat)"
  show "\<exists>chat'. chats (handleNewMessage a (handleNewMessage a st sender (TEXT tm)) sender (TEXT tm))
                   (targetChatId sender tm) = Some chat'
               \<and> length (messages chat') = length (messages chat) + 1"
    unfolding handleNewMessage_idempotent
    by (simp add: handleNewMessage_fresh_id[OF assms fresh])
next
  assume fresh: "\<not> list_ex (\<lambda>m. id_msg m = id_msg tm) (messages chat)"
  show "db (handleNewMessage a (handleNewMessage a st sender (TEXT tm)) sender (TEXT tm))
          = db st @ [PutMessage tm (targetChatId sender tm)]"
    unfolding handleNewMessage_idempotent
    by (simp add: handleNewMessage_fresh_id[OF assms fresh])
qed


theorem receive_duplicate_id_ignored_witness:
  "(\<exists>chat. chats exCreated (targetChatId (js ''fedcba9876543210'') exPeerMessage) = Some chat
       \<and> \<not> list_ex (\<lambda>m. id_msg m = id_msg exPeerMessage) (messages chat)
       \<and> (\<exists>chat'. chats (handleNewMessage (Some exGroupId) exReceived (js ''fedcba9876543210'')
                            (TEXT exPeerMessage)) exGroupId = Some chat'
                 \<and> length (messages chat') = length (messages chat) + 1))
   \<and> db (handleNewMessage (Some exGroupId) exReceived (js ''fedcba9876543210'') (TEXT exPeerMessage))
       = db exCreated @ [PutMessage exPeerMessage exGroupId]
   \<and> (\<exists>chat. chats exReceived (targetChatId (js ''fedcba9876543210'') exPeerMessage) = Some chat
       \<and> list_ex (\<lambda>m. id_msg m = id_msg exPeerMessage) (messages chat))
   \<and> handleNewMessage (Some exGroupId) exReceived (js ''fedcba9876543210'') (TEXT exPeerMessage)
       = exReceived"
proof -
  let ?p = "js ''fedcba9876543210''"
  let ?g = "\<lparr> id_chat = exGroupId, name_chat = js ''Team'', type_chat = Group, messages = [],
              unreadCount = 0,
              members = [\<lparr>id_member = id_user exUser, name_member = name_user exUser\<rparr>],
              groupKey = Some (7::nat), groupKeyJwk = Some exJwk \<rparr>"
  have t: "targetChatId ?p exPeerMessage = exGroupId"
    by (simp add: ex_defs op_defs)
  have a: "activeChatId exCreated = Some exGroupId"
    by (simp add: ex_defs op_defs)
  have r: "exReceived = handleNewMessage (Some exGroupId) exCreated ?p (TEXT exPeerMessage)"
    by (simp add: exReceived_def a)
  have h1: "chats exCreated (targetChatId ?p exPeerMessage) = Some ?g"
    by (simp add: ex_defs op_defs)
  have f1: "\<not> list_ex (\<lambda>m. id_msg m = id_msg exPeerMessage) (messages ?g)"
    by simp
  have h2: "chats exReceived (targetChatId ?p exPeerMessage) = Some (?g\<lparr>messages := [exPeerMessage]\<rparr>)"
    by (simp add: r t handleNewMessage_fresh_id[OF h1 f1])
  have f2: "list_ex (\<lambda>m. id_msg m = id_msg exPeerMessage) (messages (?g\<lparr>messages := [exPeerMessage]\<rparr>))"
    by simp
  note A = receive_duplicate_id_ignored[OF h1, of "Some exGroupId", folded r, unfolded t]
  note B = receive_duplicate_id_ignored[OF h2, of "Some exGroupId", unfolded t]
  from A f1 have A1: "\<exists>chat'. chats (handleNewMessage (Some exGroupId) exReceived ?p (TEXT exPeerMessage))
                          exGroupId = Some chat' \<and> length (messages chat') = length (messages ?g) + 1"
    and A2: "db (handleNewMessage (Some exGroupId) exReceived ?p (TEXT exPeerMessage))
               = db exCreated @ [PutMessage exPeerMessage exGroupId]"
    by blast+
  from B f2 have B1: "handleNewMessage (Some exGroupId) exReceived ?p (TEXT exPeerMessage) = exReceived"
    by blast
  show ?thesis
    using A1 A2 B1 h1 h2 f1 f2 unfolding t by blast
qed

section \<open>Ordering of the messages\<close>

lemma receive_sorts_messages:
  assumes "chats st (targetChatId sender tm) = Some chat"
    and "\<not> list_ex (\<lambda>m. id_msg m = id_msg tm) (messages chat)"
  shows "\<exists>chat'. chats (handleNewMessage a st sender (TEXT tm)) (targetChatId sender tm) = Some chat'
           \<and> sorted (map timestamp (messages chat'))
           \<and> mset (messages chat') = mset (messages chat) + {#tm#}"
  by (simp add: handleNewMessage_fresh_id[OF assms])

lemma reachable_exCreated: "reachable exCreated"
  unfolding exCreated_def exInit_def by (rule reachable.create[OF reachable.loaded])

lemma reachable_exReceived: "reachable exReceived"
  unfolding exReceived_def by (rule reachable.receive[OF reachable_exCreated])

lemma reachable_exSent: "reachable exSent"
  unfolding exSent_def by (rule reachable.send[OF reachable_exReceived])

lemma reachable_exSecond: "reachable exSecond"
  unfolding exSecond_def by (rule reachable.create[OF reachable_exCreated])

lemma reachable_exUnread: "reachable exUnread"
  unfolding exUnread_def by (rule reachable.receive[OF reachable_exSecond])

text \<open>
  C5. The user creates a group; a member's message stamped 100 by its sender arrives;
  the user sends a message when the local clock reads 50. \<^verbatim>\<open>sendMessage\<close> pushes its message
  at the end and does not sort, so the conversation then holds the timestamps 100, 50.
\<close>

theorem send_appends_without_sorting:
  "reachable exSent
   \<and> (\<exists>chat. chats exReceived exGroupId = Some chat \<and> map timestamp (messages chat) = [100])
   \<and> (\<exists>chat. chats exSent exGroupId = Some chat
         \<and> map timestamp (messages chat) = [100, 50]
         \<and> \<not> sorted (map timestamp (messages chat)))"
proof -
  have "\<exists>chat. chats exReceived exGroupId = Some chat \<and> map timestamp (messages chat) = [100]"
    by (simp add: ex_defs op_defs)
  moreover have "\<exists>chat. chats exSent exGroupId = Some chat
         \<and> map timestamp (messages chat) = [100, 50]
         \<and> \<not> sorted (map timestamp (messages chat))"
    by (simp add: ex_defs op_defs)
  ultimately show ?thesis using reachable_exSent by blast
qed

section \<open>The saved conversation\<close>



section \<open>The unread count\<close>
















section \<open>Group invitations\<close>

lemmas builtin_defs = btoa_def base64Char_def base64Alphabet_def QuoteJSONString_def
  isLeadSurrogate_def isTrailSurrogate_def unicodeEscape_def padStart_def hexDigit_def

lemma reachable_exJapanese: "reachable exJapanese"
  unfolding exJapanese_def exInit_def by (rule reachable.create[OF reachable.loaded])

text \<open>
  C7. The user creates a group with a Japanese name and asks for its invite code. The
  serialized payload holds the name as it is, \<^verbatim>\<open>btoa\<close> throws \<^verbatim>\<open>InvalidCharacterError\<close> on
  it, and no code is made; for the group named \<^verbatim>\<open>Team\<close> a code is made.
\<close>

theorem invite_code_throws_on_non_latin1_name:
  "reachable exJapanese
   \<and> (\<exists>chat. chats exJapanese (js ''group-u3'') = Some chat \<and> type_chat chat = Group
          \<and> name_chat chat = [0x65E5, 0x672C, 0x8A9E]
          \<and> groupKey chat = Some 9 \<and> groupKeyJwk chat = Some exJwk)
   \<and> generateGroupInviteCode (chats exJapanese) (js ''group-u3'') = Inl InvalidCharacterError
   \<and> (\<exists>code. generateGroupInviteCode (chats exCreated) exGroupId = Inr code)"
proof -
  have "\<exists>chat. chats exJapanese (js ''group-u3'') = Some chat \<and> type_chat chat = Group
          \<and> name_chat chat = [0x65E5, 0x672C, 0x8A9E]
          \<and> groupKey chat = Some 9 \<and> groupKeyJwk chat = Some exJwk"
    by (simp add: ex_defs op_defs)
  moreover have "generateGroupInviteCode (chats exJapanese) (js ''group-u3'') = Inl InvalidCharacterError"
    by (simp add: ex_defs op_defs generateGroupInviteCode_def builtin_defs)
  moreover have "\<exists>code. generateGroupInviteCode (chats exCreated) exGroupId = Inr code"
    by (simp add: ex_defs op_defs generateGroupInviteCode_def builtin_defs)
  ultimately show ?thesis using reachable_exJapanese by blast
qed

section \<open>The user identifier\<close>

declare toString16.simps [simp del]









lemma finite_coordinateTexts: "finite coordinateTexts"
  unfolding coordinateTexts_def by (rule finite_lists_length_eq) simp







section \<open>Completing a handshake\<close>



lemma handleOffer_code:
  assumes "handleOffer browser user peers code = (peers', Resolved (Some answerCode))"
  shows "\<exists>sdp sender offered answered secret.
           parseCode browser code = Inr (sdp, sender)
         \<and> find (\<lambda>p. id_user p = id_sender sender) peers = None
         \<and> setRemoteDescription browser \<lparr>signalingState = Stable, localDescription = None\<rparr> sdp = Inr offered
         \<and> answerLocally browser offered = Inr answered
         \<and> deriveSharedSecret browser (privateKey (keys user)) (publicKey_sender sender) = Inr secret
         \<and> btoa (JSON_stringify (codePayload answered user)) = Inr answerCode
         \<and> peers' = addPeer peers
              ((createPeerConnection (id_sender sender))
                 \<lparr> name_user := name_sender sender,
                    keys := \<lparr>publicKey = publicKey_sender sender, privateKey = JObject []\<rparr>,
                    connection := answered, sharedSecret := Some secret \<rparr>)"
  using assms
  by (auto simp: handleOffer_def Let_def createPeerConnection_def
           split: sum.splits option.splits prod.splits)




lemma find_Some_set: "find P xs = Some x \<Longrightarrow> x \<in> set xs \<and> P x"
  by (induction xs) (auto split: if_splits)










end
